theory Spec2Isabelle
  imports Complex_Main
begin

section \<open>Floating-point numbers\<close>

text \<open>
  A Python \<^verbatim>\<open>float\<close> is an IEEE 754 double and the host stores rotations in single
  precision. A floating-point number is a sign bit with a non-negative rational
  magnitude (so that the two zeros differ), an infinity with its sign, or a NaN.
\<close>

datatype flt =
    Fin bool rat
  | Infinite bool
  | NaN

text \<open>The number of binary digits of a positive integer.\<close>

function bit_length :: "int \<Rightarrow> int" where
  "bit_length n = (if n \<le> 0 then 0 else 1 + bit_length (n div 2))"
  by pat_completeness auto
termination
  by (relation "measure nat") auto

declare bit_length.simps [simp del]

definition pow2 :: "int \<Rightarrow> rat" where
  "pow2 k = (if 0 \<le> k then of_int (2 ^ nat k) else 1 / of_int (2 ^ nat (- k)))"

text \<open>The exponent of the leading binary digit of a positive rational.\<close>

definition ilog2 :: "rat \<Rightarrow> int" where
  "ilog2 q = (if 1 \<le> q then bit_length \<lfloor>q\<rfloor> - 1
              else - bit_length (\<lceil>1 / q\<rceil> - 1))"

text \<open>Rounding to the nearest integer, a tie to the even one.\<close>

definition round_half_even :: "rat \<Rightarrow> int" where
  "round_half_even q =
     (let f = \<lfloor>q\<rfloor>; d = q - of_int f
      in if d < 1 / 2 then f else if 1 / 2 < d then f + 1 else if even f then f else f + 1)"

text \<open>
  Rounding a magnitude to the binary format with \<open>p\<close> significant digits and exponents
  from \<open>emin\<close> to \<open>emax\<close>, to nearest and ties to even, with gradual underflow; \<open>None\<close> when
  the rounded magnitude is beyond the largest finite number of the format.
\<close>

definition round_to :: "nat \<Rightarrow> int \<Rightarrow> int \<Rightarrow> rat \<Rightarrow> rat option" where
  "round_to p emin emax q =
     (if q = 0 then Some 0
      else let e = max (ilog2 q) emin;
               ulp = pow2 (e - int p + 1);
               v = of_int (round_half_even (q / ulp)) * ulp
           in if pow2 (emax + 1) \<le> v then None else Some v)"

definition round_double :: "rat \<Rightarrow> rat option" where
  "round_double q = round_to 53 (- 1022) 1023 q"

definition round_single :: "rat \<Rightarrow> rat option" where
  "round_single q = round_to 24 (- 126) 127 q"

section \<open>Values of the pose document\<close>

text \<open>
  The pose document is whatever \<^verbatim>\<open>json.load\<close> returns: \<^verbatim>\<open>None\<close>, a bool, an \<^verbatim>\<open>int\<close> (for a
  number written without fraction or exponent), a \<^verbatim>\<open>float\<close> (a double), a string, a list,
  or a dict with string keys. A dict is an association list in insertion order (the
  order \<^verbatim>\<open>items()\<close> iterates in); \<^verbatim>\<open>json.load\<close> never produces a dict with a repeated key. A
  character stands for one code point of a Python string.
\<close>

datatype json =
    JNull
  | JBool bool
  | JInt int
  | JFloat flt
  | JStr string
  | JArr "json list"
  | JObj "(string \<times> json) list"

text \<open>The exceptions the script can meet.\<close>

datatype error =
    AttributeError
  | TypeError
  | KeyError
  | IndexError
  | OverflowError
  | OSError
  | JSONDecodeError

text \<open>Python truthiness of a loaded value, as tested by \<^verbatim>\<open>not v\<close>.\<close>

fun truthy :: "json \<Rightarrow> bool" where
  "truthy JNull = False"
| "truthy (JBool b) = b"
| "truthy (JInt n) = (n \<noteq> 0)"
| "truthy (JFloat (Fin sign q)) = (q \<noteq> 0)"
| "truthy (JFloat (Infinite sign)) = True"
| "truthy (JFloat NaN) = True"
| "truthy (JStr s) = (s \<noteq> [])"
| "truthy (JArr xs) = (xs \<noteq> [])"
| "truthy (JObj kvs) = (kvs \<noteq> [])"

text \<open>\<^verbatim>\<open>d.get(key, default)\<close>: only a dict has the method.\<close>

fun py_get :: "json \<Rightarrow> string \<Rightarrow> json \<Rightarrow> error + json" where
  "py_get (JObj kvs) key dflt =
     Inr (case map_of kvs key of None \<Rightarrow> dflt | Some v \<Rightarrow> v)"
| "py_get _ key dflt = Inl AttributeError"

text \<open>\<^verbatim>\<open>len(v)\<close>: strings, lists and dicts are sized, nothing else is.\<close>

fun py_len :: "json \<Rightarrow> error + nat" where
  "py_len (JStr s) = Inr (length s)"
| "py_len (JArr xs) = Inr (length xs)"
| "py_len (JObj kvs) = Inr (length kvs)"
| "py_len _ = Inl TypeError"

text \<open>
  \<^verbatim>\<open>v[i]\<close> for a non-negative integer \<open>i\<close>. A loaded dict has string keys only, so an
  integer subscript is a missing key.
\<close>

fun py_index :: "json \<Rightarrow> nat \<Rightarrow> error + json" where
  "py_index (JArr xs) i = (if i < length xs then Inr (xs ! i) else Inl IndexError)"
| "py_index (JStr s) i = (if i < length s then Inr (JStr [s ! i]) else Inl IndexError)"
| "py_index (JObj kvs) i = Inl KeyError"
| "py_index _ i = Inl TypeError"

text \<open>
  The conversion of a Python \<^verbatim>\<open>int\<close> to a double: correctly rounded, and an
  \<^verbatim>\<open>OverflowError\<close> when the integer is beyond the range of the doubles.
\<close>

definition int_to_double :: "int \<Rightarrow> error + flt" where
  "int_to_double n =
     (case round_double (of_int \<bar>n\<bar>) of
        None \<Rightarrow> Inl OverflowError
      | Some v \<Rightarrow> Inr (Fin (n < 0) v))"

text \<open>
  The conversion of an argument to a double, as \<^verbatim>\<open>math.radians\<close> and the \<^verbatim>\<open>mathutils\<close>
  constructors apply it: a float is taken as it is, an int is converted, a bool is an
  int in Python, anything else is a \<^verbatim>\<open>TypeError\<close>.
\<close>

fun as_float :: "json \<Rightarrow> error + flt" where
  "as_float (JFloat d) = Inr d"
| "as_float (JInt n) = int_to_double n"
| "as_float (JBool b) = Inr (Fin False (if b then 1 else 0))"
| "as_float _ = Inl TypeError"

text \<open>The C conversion of a double to a single-precision float.\<close>

definition to_single :: "flt \<Rightarrow> flt" where
  "to_single d =
     (case d of
        Fin sign q \<Rightarrow> (case round_single q of None \<Rightarrow> Infinite sign | Some v \<Rightarrow> Fin sign v)
      | Infinite sign \<Rightarrow> Infinite sign
      | NaN \<Rightarrow> NaN)"

text \<open>
  \<^verbatim>\<open>math.radians(v)\<close>: the argument as a double, times the double constant \<open>pi / 180\<close>,
  rounded to a double.
\<close>

definition degToRad :: rat where
  "degToRad = 5030569068109113 / 288230376151711744"

definition radians :: "json \<Rightarrow> error + flt" where
  "radians v =
     (case as_float v of
        Inl e \<Rightarrow> Inl e
      | Inr d \<Rightarrow>
          Inr (case d of
                 Fin sign q \<Rightarrow>
                   (case round_double (q * degToRad) of
                      None \<Rightarrow> Infinite sign
                    | Some r \<Rightarrow> Fin sign r)
               | Infinite sign \<Rightarrow> Infinite sign
               | NaN \<Rightarrow> NaN))"

section \<open>The host application\<close>

text \<open>
  A \<^verbatim>\<open>mathutils.Quaternion\<close>, components in the order (w, x, y, z), and a
  \<^verbatim>\<open>mathutils.Euler\<close>, three angles in radians and an axis order. Both hold
  single-precision floats.
\<close>

datatype quaternion = Quat flt flt flt flt

datatype euler = Eul flt flt flt string

text \<open>
  \<^verbatim>\<open>Quaternion((a, b, c, d))\<close> on four loaded values. Each is converted to a double and
  stored as a single; the constructor reports any failure of a conversion as a
  \<^verbatim>\<open>TypeError\<close>.
\<close>

definition Quaternion :: "json \<Rightarrow> json \<Rightarrow> json \<Rightarrow> json \<Rightarrow> error + quaternion" where
  "Quaternion a b c d =
     (case as_float a of Inl e \<Rightarrow> Inl TypeError | Inr a' \<Rightarrow>
     (case as_float b of Inl e \<Rightarrow> Inl TypeError | Inr b' \<Rightarrow>
     (case as_float c of Inl e \<Rightarrow> Inl TypeError | Inr c' \<Rightarrow>
     (case as_float d of Inl e \<Rightarrow> Inl TypeError | Inr d' \<Rightarrow>
        Inr (Quat (to_single a') (to_single b') (to_single c') (to_single d'))))))"

text \<open>\<^verbatim>\<open>Euler((x, y, z), order)\<close> on three Python floats.\<close>

definition Euler :: "flt \<Rightarrow> flt \<Rightarrow> flt \<Rightarrow> string \<Rightarrow> euler" where
  "Euler x y z order = Eul (to_single x) (to_single y) (to_single z) order"

record pose_bone =
  rotation_quaternion :: quaternion

text \<open>
  An object of the scene: its type, its rotation mode, the three angles of its Euler
  rotation, and its pose bones by name (none unless it is an armature). The host reads
  the three angles in the axis order that the rotation mode names.
\<close>

record blender_object =
  obj_type :: string
  rotation_mode :: string
  rotation_euler :: "flt \<times> flt \<times> flt"
  pose_bones :: "string \<rightharpoonup> pose_bone"

text \<open>What the script prints, one constructor for each message.\<close>

datatype event =
    ErrArmatureNotFound string
  | ErrNotArmature string
  | ErrNoVrmPose
  | WarnNoMapping string
  | WarnBoneNotFound string
  | MsgApplied nat
  | MsgSkipped nat
  | MsgSceneRotation json json json
  | MsgRule
  | MsgTitle
  | MsgLoading string
  | MsgLoaded
  | MsgLoadFailed error
  | MsgApplyingSceneRotation
  | MsgApplyingPose string
  | MsgSuccess
  | MsgNextSteps
  | MsgFailed
  | MsgTroubleshooting

text \<open>
  The part of the host's state the script reads or writes: the objects of
  \<^verbatim>\<open>bpy.data.objects\<close> by name, the active object of the view layer, the interaction
  mode, the number of view-layer updates so far, and the console. The script holds an
  object as a reference; here the reference is the object's name, and a write through it
  updates the object stored under that name. The host's own operations (making an object
  active, switching the mode, updating the view layer) are taken to succeed.
\<close>

record bpy =
  objects :: "string \<rightharpoonup> blender_object"
  active :: "string option"
  mode :: string
  view_updates :: nat
  console :: "event list"

definition py_print :: "event \<Rightarrow> bpy \<Rightarrow> bpy" where
  "py_print e s = s\<lparr>console := console s @ [e]\<rparr>"

text \<open>\<^verbatim>\<open>armature_obj.pose.bones.get(bone_name)\<close> on the object called \<open>name\<close>.\<close>

definition bones_get :: "bpy \<Rightarrow> string \<Rightarrow> string \<Rightarrow> pose_bone option" where
  "bones_get s name bone_name =
     (case objects s name of None \<Rightarrow> None | Some obj \<Rightarrow> pose_bones obj bone_name)"

text \<open>\<^verbatim>\<open>pose_bone.rotation_quaternion = quat\<close> on that bone of that object.\<close>

definition set_rotation_quaternion :: "string \<Rightarrow> string \<Rightarrow> quaternion \<Rightarrow> bpy \<Rightarrow> bpy" where
  "set_rotation_quaternion name bone_name quat s =
     (case objects s name of
        None \<Rightarrow> s
      | Some obj \<Rightarrow>
          (case pose_bones obj bone_name of
             None \<Rightarrow> s
           | Some pb \<Rightarrow>
               s\<lparr>objects := (objects s)(name \<mapsto>
                    obj\<lparr>pose_bones := (pose_bones obj)(bone_name \<mapsto>
                          pb\<lparr>rotation_quaternion := quat\<rparr>)\<rparr>)\<rparr>))"

text \<open>
  \<^verbatim>\<open>armature_obj.rotation_euler = e\<close> on the object called \<open>name\<close>. The host copies the
  three angles of \<open>e\<close>; the axis order of \<open>e\<close> is not taken over, the object keeps its
  rotation mode.
\<close>

definition set_rotation_euler :: "string \<Rightarrow> euler \<Rightarrow> bpy \<Rightarrow> bpy" where
  "set_rotation_euler name e s =
     (case objects s name of
        None \<Rightarrow> s
      | Some obj \<Rightarrow>
          (case e of
             Eul x y z order \<Rightarrow>
               s\<lparr>objects := (objects s)(name \<mapsto> obj\<lparr>rotation_euler := (x, y, z)\<rparr>)\<rparr>))"

section \<open>Configuration and the bone-name table\<close>

definition JSON_PATH :: string where
  "JSON_PATH = ''C:/path/to/your/pose.json''"

definition ARMATURE_NAME :: string where
  "ARMATURE_NAME = ''Armature''"

definition VRM_TO_BLENDER_BONES :: "(string \<times> string) list" where
  "VRM_TO_BLENDER_BONES =
    [(''hips'', ''Hips''),
     (''spine'', ''Spine''),
     (''chest'', ''Chest''),
     (''upperChest'', ''UpperChest''),
     (''neck'', ''Neck''),
     (''head'', ''Head''),
     (''leftShoulder'', ''LeftShoulder''),
     (''leftUpperArm'', ''LeftUpperArm''),
     (''leftLowerArm'', ''LeftLowerArm''),
     (''leftHand'', ''LeftHand''),
     (''rightShoulder'', ''RightShoulder''),
     (''rightUpperArm'', ''RightUpperArm''),
     (''rightLowerArm'', ''RightLowerArm''),
     (''rightHand'', ''RightHand''),
     (''leftUpperLeg'', ''LeftUpperLeg''),
     (''leftLowerLeg'', ''LeftLowerLeg''),
     (''leftFoot'', ''LeftFoot''),
     (''leftToes'', ''LeftToes''),
     (''rightUpperLeg'', ''RightUpperLeg''),
     (''rightLowerLeg'', ''RightLowerLeg''),
     (''rightFoot'', ''RightFoot''),
     (''rightToes'', ''RightToes''),
     (''leftThumbProximal'', ''LeftThumbProximal''),
     (''leftThumbIntermediate'', ''LeftThumbIntermediate''),
     (''leftThumbDistal'', ''LeftThumbDistal''),
     (''leftIndexProximal'', ''LeftIndexProximal''),
     (''leftIndexIntermediate'', ''LeftIndexIntermediate''),
     (''leftIndexDistal'', ''LeftIndexDistal''),
     (''leftMiddleProximal'', ''LeftMiddleProximal''),
     (''leftMiddleIntermediate'', ''LeftMiddleIntermediate''),
     (''leftMiddleDistal'', ''LeftMiddleDistal''),
     (''leftRingProximal'', ''LeftRingProximal''),
     (''leftRingIntermediate'', ''LeftRingIntermediate''),
     (''leftRingDistal'', ''LeftRingDistal''),
     (''leftLittleProximal'', ''LeftLittleProximal''),
     (''leftLittleIntermediate'', ''LeftLittleIntermediate''),
     (''leftLittleDistal'', ''LeftLittleDistal''),
     (''rightThumbProximal'', ''RightThumbProximal''),
     (''rightThumbIntermediate'', ''RightThumbIntermediate''),
     (''rightThumbDistal'', ''RightThumbDistal''),
     (''rightIndexProximal'', ''RightIndexProximal''),
     (''rightIndexIntermediate'', ''RightIndexIntermediate''),
     (''rightIndexDistal'', ''RightIndexDistal''),
     (''rightMiddleProximal'', ''RightMiddleProximal''),
     (''rightMiddleIntermediate'', ''RightMiddleIntermediate''),
     (''rightMiddleDistal'', ''RightMiddleDistal''),
     (''rightRingProximal'', ''RightRingProximal''),
     (''rightRingIntermediate'', ''RightRingIntermediate''),
     (''rightRingDistal'', ''RightRingDistal''),
     (''rightLittleProximal'', ''RightLittleProximal''),
     (''rightLittleIntermediate'', ''RightLittleIntermediate''),
     (''rightLittleDistal'', ''RightLittleDistal'')]"

text \<open>\<^verbatim>\<open>VRM_TO_BLENDER_BONES.get(vrm_bone_name)\<close>.\<close>

definition bone_map_get :: "string \<Rightarrow> string option" where
  "bone_map_get vrm_bone_name = map_of VRM_TO_BLENDER_BONES vrm_bone_name"

section \<open>The pose applier\<close>

text \<open>
  The four subscripts and the constructor call of
  \<^verbatim>\<open>Quaternion((rotation[3], rotation[0], rotation[1], rotation[2]))\<close>, evaluated left to
  right.
\<close>

definition reorder :: "json \<Rightarrow> error + quaternion" where
  "reorder rotation =
     (case py_index rotation 3 of Inl e \<Rightarrow> Inl e | Inr r3 \<Rightarrow>
     (case py_index rotation 0 of Inl e \<Rightarrow> Inl e | Inr r0 \<Rightarrow>
     (case py_index rotation 1 of Inl e \<Rightarrow> Inl e | Inr r1 \<Rightarrow>
     (case py_index rotation 2 of Inl e \<Rightarrow> Inl e | Inr r2 \<Rightarrow>
        Quaternion r3 r0 r1 r2))))"

text \<open>
  One pass through the body of \<^verbatim>\<open>for vrm_bone_name, bone_data in vrm_pose.items()\<close>:
  the two counters and the host's state after it, or the exception it raises. The body
  writes nothing before the point where it can raise, so an exception leaves the state
  of the pass's start.
\<close>

definition apply_bone ::
  "string \<Rightarrow> string \<times> json \<Rightarrow> nat \<Rightarrow> nat \<Rightarrow> bpy \<Rightarrow> error + nat \<times> nat \<times> bpy" where
  "apply_bone name entry applied_count skipped_count s =
     (let vrm_bone_name = fst entry; bone_data = snd entry in
      case bone_map_get vrm_bone_name of
        None \<Rightarrow>
          Inr (applied_count, skipped_count + 1, py_print (WarnNoMapping vrm_bone_name) s)
      | Some blender_bone_name \<Rightarrow>
          if blender_bone_name = [] then
            Inr (applied_count, skipped_count + 1, py_print (WarnNoMapping vrm_bone_name) s)
          else
            (case bones_get s name blender_bone_name of
               None \<Rightarrow>
                 Inr (applied_count, skipped_count + 1,
                      py_print (WarnBoneNotFound blender_bone_name) s)
             | Some pose_bone \<Rightarrow>
                 (case py_get bone_data ''rotation'' JNull of
                    Inl e \<Rightarrow> Inl e
                  | Inr rotation \<Rightarrow>
                      if \<not> truthy rotation then Inr (applied_count, skipped_count, s)
                      else
                        (case py_len rotation of
                           Inl e \<Rightarrow> Inl e
                         | Inr n \<Rightarrow>
                             if n \<noteq> 4 then Inr (applied_count, skipped_count, s)
                             else
                               (case reorder rotation of
                                  Inl e \<Rightarrow> Inl e
                                | Inr quat \<Rightarrow>
                                    Inr (applied_count + 1, skipped_count,
                                         set_rotation_quaternion name blender_bone_name quat s))))))"

text \<open>
  The loop over the entries in document order. The first component of the result is the
  host's state when the loop ends or raises: writes made by earlier passes stay.
\<close>

fun apply_bones ::
  "string \<Rightarrow> (string \<times> json) list \<Rightarrow> nat \<Rightarrow> nat \<Rightarrow> bpy \<Rightarrow> bpy \<times> (error + nat \<times> nat)" where
  "apply_bones name [] applied_count skipped_count s = (s, Inr (applied_count, skipped_count))"
| "apply_bones name (entry # rest) applied_count skipped_count s =
     (case apply_bone name entry applied_count skipped_count s of
        Inl e \<Rightarrow> (s, Inl e)
      | Inr (applied_count', skipped_count', s') \<Rightarrow>
          apply_bones name rest applied_count' skipped_count' s')"

text \<open>\<^verbatim>\<open>vrm_pose.items()\<close>: only a dict has the method.\<close>

fun py_items :: "json \<Rightarrow> error + (string \<times> json) list" where
  "py_items (JObj kvs) = Inr kvs"
| "py_items _ = Inl AttributeError"

definition apply_vrm_pose_to_armature :: "string \<Rightarrow> json \<Rightarrow> bpy \<Rightarrow> bpy \<times> (error + bool)" where
  "apply_vrm_pose_to_armature armature_name pose_data s =
     (case objects s armature_name of
        None \<Rightarrow> (py_print (ErrArmatureNotFound armature_name) s, Inr False)
      | Some armature_obj \<Rightarrow>
          if obj_type armature_obj \<noteq> ''ARMATURE'' then
            (py_print (ErrNotArmature armature_name) s, Inr False)
          else
            let s1 = s\<lparr>active := Some armature_name\<rparr>;
                s2 = s1\<lparr>mode := ''POSE''\<rparr>
            in
              (case py_get pose_data ''vrmPose'' (JObj []) of
                 Inl e \<Rightarrow> (s2, Inl e)
               | Inr vrm_pose \<Rightarrow>
                   if \<not> truthy vrm_pose then (py_print ErrNoVrmPose s2, Inr False)
                   else
                     (case py_items vrm_pose of
                        Inl e \<Rightarrow> (s2, Inl e)
                      | Inr entries \<Rightarrow>
                          (case apply_bones armature_name entries 0 0 s2 of
                             (s3, Inl e) \<Rightarrow> (s3, Inl e)
                           | (s3, Inr (applied_count, skipped_count)) \<Rightarrow>
                               let s4 = py_print (MsgApplied applied_count) s3;
                                   s5 = py_print (MsgSkipped skipped_count) s4;
                                   s6 = s5\<lparr>view_updates := view_updates s5 + 1\<rparr>
                               in (s6, Inr True)))))"

section \<open>The scene rotation applier\<close>

definition apply_scene_rotation :: "json \<Rightarrow> bpy \<Rightarrow> bpy \<times> (error + unit)" where
  "apply_scene_rotation pose_data s =
     (case py_get pose_data ''sceneRotation'' (JObj []) of
        Inl e \<Rightarrow> (s, Inl e)
      | Inr scene_rotation \<Rightarrow>
          if \<not> truthy scene_rotation then (s, Inr ())
          else
            (case objects s ARMATURE_NAME of
               None \<Rightarrow> (s, Inr ())
             | Some armature_obj \<Rightarrow>
                 (case py_get scene_rotation ''x'' (JInt 0) of Inl e \<Rightarrow> (s, Inl e) | Inr vx \<Rightarrow>
                 (case radians vx of Inl e \<Rightarrow> (s, Inl e) | Inr x \<Rightarrow>
                 (case py_get scene_rotation ''y'' (JInt 0) of Inl e \<Rightarrow> (s, Inl e) | Inr vy \<Rightarrow>
                 (case radians vy of Inl e \<Rightarrow> (s, Inl e) | Inr y \<Rightarrow>
                 (case py_get scene_rotation ''z'' (JInt 0) of Inl e \<Rightarrow> (s, Inl e) | Inr vz \<Rightarrow>
                 (case radians vz of Inl e \<Rightarrow> (s, Inl e) | Inr z \<Rightarrow>
                    let s1 = set_rotation_euler ARMATURE_NAME (Euler x y z ''XYZ'') s
                    in (py_print (MsgSceneRotation vx vy vz) s1, Inr ())))))))))"

section \<open>The orchestrator\<close>

text \<open>
  \<open>main\<close> takes the outcome of \<^verbatim>\<open>load_vrm_pose_json(JSON_PATH)\<close>: the parsed document, or
  the exception that opening or parsing the file raised. An exception of the two appliers
  is not caught.
\<close>

definition main :: "error + json \<Rightarrow> bpy \<Rightarrow> bpy \<times> (error + unit)" where
  "main loaded s =
     (let s1 = py_print MsgRule (py_print MsgTitle (py_print MsgRule s));
          s2 = py_print (MsgLoading JSON_PATH) s1
      in
        case loaded of
          Inl e \<Rightarrow> (py_print (MsgLoadFailed e) s2, Inr ())
        | Inr pose_data \<Rightarrow>
            let s3 = py_print MsgLoaded s2;
                s4 = py_print MsgApplyingSceneRotation s3
            in
              (case apply_scene_rotation pose_data s4 of
                 (s5, Inl e) \<Rightarrow> (s5, Inl e)
               | (s5, Inr u) \<Rightarrow>
                   let s6 = py_print (MsgApplyingPose ARMATURE_NAME) s5 in
                     (case apply_vrm_pose_to_armature ARMATURE_NAME pose_data s6 of
                        (s7, Inl e) \<Rightarrow> (s7, Inl e)
                      | (s7, Inr success) \<Rightarrow>
                          let s8 = (if success
                                    then py_print MsgNextSteps (py_print MsgSuccess s7)
                                    else py_print MsgTroubleshooting (py_print MsgFailed s7))
                          in (py_print MsgRule s8, Inr ()))))"

section \<open>The groups of canonical bone names\<close>

text \<open>
  The groups that the comments of the table name: the core skeleton, the two arms and
  the two legs, and the three segments of the five fingers of each hand.
\<close>

definition core_bones :: "string list" where
  "core_bones = [''hips'', ''spine'', ''chest'', ''upperChest'', ''neck'', ''head'']"

definition arm_bones :: "string \<Rightarrow> string list" where
  "arm_bones side = map (\<lambda>part. side @ part) [''Shoulder'', ''UpperArm'', ''LowerArm'', ''Hand'']"

definition leg_bones :: "string \<Rightarrow> string list" where
  "leg_bones side = map (\<lambda>part. side @ part) [''UpperLeg'', ''LowerLeg'', ''Foot'', ''Toes'']"

definition limb_bones :: "string list" where
  "limb_bones = arm_bones ''left'' @ arm_bones ''right'' @ leg_bones ''left'' @ leg_bones ''right''"

definition finger_bones :: "string list" where
  "finger_bones =
     concat (map (\<lambda>side.
       concat (map (\<lambda>finger.
         map (\<lambda>segment. side @ finger @ segment) [''Proximal'', ''Intermediate'', ''Distal''])
         [''Thumb'', ''Index'', ''Middle'', ''Ring'', ''Little'']))
       [''left'', ''right''])"

section \<open>The entries that are passed over\<close>




section \<open>Observations of the host's state\<close>


section \<open>A sample scene and sample documents\<close>

definition zero :: flt where
  "zero = Fin False 0"

definition one :: flt where
  "one = Fin False 1"

text \<open>The doubles nearest to 0.6 and 0.8, and the singles nearest to these.\<close>

definition d06 :: flt where
  "d06 = Fin False (5404319552844595 / 9007199254740992)"

definition d08 :: flt where
  "d08 = Fin False (3602879701896397 / 4503599627370496)"



definition sample_rig :: blender_object where
  "sample_rig =
     \<lparr>obj_type = ''ARMATURE'',
      rotation_mode = ''QUATERNION'',
      rotation_euler = (zero, zero, zero),
      pose_bones = [''Hips'' \<mapsto> \<lparr>rotation_quaternion = Quat zero one zero zero\<rparr>,
                    ''Spine'' \<mapsto> \<lparr>rotation_quaternion = Quat one zero zero zero\<rparr>]\<rparr>"

definition sample_mesh :: blender_object where
  "sample_mesh =
     \<lparr>obj_type = ''MESH'', rotation_mode = ''XYZ'', rotation_euler = (zero, zero, zero),
      pose_bones = Map.empty\<rparr>"

definition sample_scene :: bpy where
  "sample_scene =
     \<lparr>objects = [''Armature'' \<mapsto> sample_rig, ''Body'' \<mapsto> sample_mesh],
      active = None, mode = ''OBJECT'', view_updates = 0, console = []\<rparr>"


definition empty_scene :: bpy where
  "empty_scene =
     \<lparr>objects = Map.empty, active = None, mode = ''OBJECT'', view_updates = 0, console = []\<rparr>"

text \<open>The rotation \<^verbatim>\<open>[0, 0.6, 0, 0.8]\<close>, a number where an array should be, and documents.\<close>

definition hips_turned :: json where
  "hips_turned = JObj [(''rotation'', JArr [JInt 0, JFloat d06, JInt 0, JFloat d08])]"


definition sample_pose :: json where
  "sample_pose = JObj [(''vrmPose'', JObj [(''hips'', hips_turned)])]"








section \<open>The bone-name table\<close>

lemma map_of_inj_on_distinct_values:
  "distinct (map snd xs) \<Longrightarrow> map_of xs k1 = Some v \<Longrightarrow> map_of xs k2 = Some v \<Longrightarrow> k1 = k2"
proof (induction xs)
  case Nil
  then show ?case by simp
next
  case (Cons p ps)
  obtain k v' where p: "p = (k, v')" by (cases p)
  have fresh: "\<And>k'. map_of ps k' \<noteq> Some v'"
    using Cons.prems(1) p by (auto dest!: map_of_SomeD simp: image_iff)
  show ?case
    using Cons p fresh by (auto split: if_splits)
qed

lemma table_values_distinct: "distinct (map snd VRM_TO_BLENDER_BONES)"
  by (simp add: VRM_TO_BLENDER_BONES_def)

lemma table_keys_distinct: "distinct (map fst VRM_TO_BLENDER_BONES)"
  by (simp add: VRM_TO_BLENDER_BONES_def)

lemma table_values_nonempty: "[] \<notin> snd ` set VRM_TO_BLENDER_BONES"
  by (simp add: VRM_TO_BLENDER_BONES_def)

lemma bone_map_get_nonempty: "bone_map_get k = Some b \<Longrightarrow> b \<noteq> []"
  using table_values_nonempty
  by (auto simp: bone_map_get_def dest!: map_of_SomeD simp: image_iff)

lemma bone_map_get_inj: "bone_map_get k1 = Some b \<Longrightarrow> bone_map_get k2 = Some b \<Longrightarrow> k1 = k2"
  unfolding bone_map_get_def
  by (rule map_of_inj_on_distinct_values [OF table_values_distinct])

lemma table_keys: "map fst VRM_TO_BLENDER_BONES = core_bones @ limb_bones @ finger_bones"
  by (simp add: VRM_TO_BLENDER_BONES_def core_bones_def limb_bones_def arm_bones_def
      leg_bones_def finger_bones_def)

lemma group_sizes: "length core_bones = 6 \<and> length limb_bones = 16 \<and> length finger_bones = 30"
  by (simp add: core_bones_def limb_bones_def arm_bones_def leg_bones_def finger_bones_def)

text \<open>
  C2, as stated: the table has 6 core, 8 limb and 30 finger entries, 44 in all. The table
  has more entries than that.
\<close>

theorem bone_table_size_counterexample: "length VRM_TO_BLENDER_BONES \<noteq> 6 + 8 + 30"
  by (simp add: VRM_TO_BLENDER_BONES_def)

text \<open>
  C2, amended: the keys of the table are, in this order, the 6 names of the core
  skeleton, the 16 names of the limbs (4 for each arm and 4 for each leg) and the 30
  names of the finger segments (3 segments of 5 fingers of 2 hands); no key occurs twice,
  so the table has 52 entries. The table is a constant and not a component of the state
  \<^typ>\<open>bpy\<close> that the operations transform, so no operation adds or removes an entry.
\<close>

theorem bone_table_coverage:
  "map fst VRM_TO_BLENDER_BONES = core_bones @ limb_bones @ finger_bones \<and>
   length core_bones = 6 \<and> length limb_bones = 16 \<and> length finger_bones = 30 \<and>
   distinct (map fst VRM_TO_BLENDER_BONES) \<and>
   length VRM_TO_BLENDER_BONES = 52"
proof -
  have "length VRM_TO_BLENDER_BONES = 52"
    by (simp add: VRM_TO_BLENDER_BONES_def)
  with table_keys group_sizes table_keys_distinct show ?thesis
    by simp
qed

text \<open>
  C8: every canonical name of the table is mapped to a non-empty rigged name, and no two
  distinct canonical names are mapped to the same rigged name.
\<close>

theorem bone_map_nonempty_injective:
  "(\<forall>k b. bone_map_get k = Some b \<longrightarrow> b \<noteq> []) \<and>
   (\<forall>k1 k2 b. bone_map_get k1 = Some b \<and> bone_map_get k2 = Some b \<longrightarrow> k1 = k2)"
  using bone_map_get_nonempty bone_map_get_inj by blast

theorem bone_map_nonempty_injective_witness:
  "bone_map_get ''leftHand'' = Some ''LeftHand'' \<and> ''LeftHand'' \<noteq> [] \<and>
   bone_map_get ''rightHand'' \<noteq> Some ''LeftHand''"
proof -
  have l: "bone_map_get ''leftHand'' = Some ''LeftHand''"
    by (simp add: bone_map_get_def VRM_TO_BLENDER_BONES_def)
  have "''LeftHand'' \<noteq> []"
    using bone_map_nonempty_injective l by blast
  moreover have "bone_map_get ''rightHand'' \<noteq> Some ''LeftHand''"
  proof
    assume "bone_map_get ''rightHand'' = Some ''LeftHand''"
    with l bone_map_nonempty_injective have "''leftHand'' = ''rightHand''"
      by blast
    then show False by simp
  qed
  ultimately show ?thesis using l by simp
qed

section \<open>Properties of the rounding\<close>

text \<open>
  The exponent is that of the leading binary digit, a rounded magnitude is within half
  a unit in the last place of the exact one, and an integer of magnitude \<open>2 ^ 1024\<close> or
  more has no double: \<^verbatim>\<open>math.radians\<close> raises \<^verbatim>\<open>OverflowError\<close> on it and the quaternion
  constructor \<^verbatim>\<open>TypeError\<close>.
\<close>

lemma pow2_powi: "pow2 k = 2 powi k"
  by (simp add: pow2_def power_int_def power_divide)




lemma round_half_even_error: "\<bar>of_int (round_half_even q) - q\<bar> \<le> 1 / 2"
proof -
  define d where "d = q - of_int \<lfloor>q\<rfloor>"
  have d: "0 \<le> d" "d < 1" unfolding d_def by linarith+
  have q: "q = of_int \<lfloor>q\<rfloor> + d" by (simp add: d_def)
  consider "d < 1 / 2" | "1 / 2 < d" | "d = 1 / 2" by linarith
  then show ?thesis
  proof cases
    case 1
    then have "round_half_even q = \<lfloor>q\<rfloor>"
      by (simp add: round_half_even_def d_def)
    then have "of_int (round_half_even q) - q = - d" by (simp add: d_def)
    then show ?thesis using 1 d by (simp add: abs_if)
  next
    case 2
    then have "round_half_even q = \<lfloor>q\<rfloor> + 1"
      by (simp add: round_half_even_def d_def Let_def)
    then have "of_int (round_half_even q) - q = 1 - d" by (simp add: d_def)
    then show ?thesis using 2 d by (simp add: abs_if)
  next
    case 3
    then have "round_half_even q = \<lfloor>q\<rfloor> \<or> round_half_even q = \<lfloor>q\<rfloor> + 1"
      by (simp add: round_half_even_def d_def Let_def)
    then have "of_int (round_half_even q) - q = - d \<or> of_int (round_half_even q) - q = 1 - d"
      by (auto simp: d_def)
    then show ?thesis using 3 by (auto simp: abs_if)
  qed
qed

lemma round_half_even_of_int: "round_half_even (of_int n) = n"
  by (simp add: round_half_even_def)

lemma round_to_error:
  assumes "0 < q" and "round_to p emin emax q = Some v"
  shows "\<bar>v - q\<bar> \<le> pow2 (max (ilog2 q) emin - int p + 1) / 2"
proof -
  let ?ulp = "pow2 (max (ilog2 q) emin - int p + 1)"
  have pos: "0 < ?ulp" by (simp add: pow2_powi)
  have v: "v = of_int (round_half_even (q / ?ulp)) * ?ulp"
    using assms by (simp add: round_to_def Let_def split: if_splits)
  have "v - q = (of_int (round_half_even (q / ?ulp)) - q / ?ulp) * ?ulp"
    using pos by (simp add: v left_diff_distrib)
  then have "\<bar>v - q\<bar> = \<bar>of_int (round_half_even (q / ?ulp)) - q / ?ulp\<bar> * ?ulp"
    using pos by (simp only: abs_mult abs_of_pos)
  also have "\<dots> \<le> (1 / 2) * ?ulp"
    using round_half_even_error [of "q / ?ulp"] pos by (intro mult_right_mono) simp_all
  finally show ?thesis by simp
qed



section \<open>Conversions of the sample numbers\<close>


lemma int_to_double_0: "int_to_double 0 = Inr zero"
  by code_simp

lemma int_to_double_90: "int_to_double 90 = Inr (Fin False 90)"
  by code_simp








section \<open>Frame lemmas of the loop\<close>

lemma objects_py_print: "objects (py_print e s) = objects s"
  by (simp add: py_print_def)















section \<open>The loop as a whole\<close>










lemmas run_defs = apply_vrm_pose_to_armature_def apply_bone_def bone_map_get_def
  VRM_TO_BLENDER_BONES_def bones_get_def reorder_def Quaternion_def py_print_def
  set_rotation_quaternion_def Let_def




section \<open>The claims about the pose applier\<close>




text \<open>
  C4: when the named object is not in the scene, or is not a skeletal rig, the pose
  applier prints the error, returns \<^verbatim>\<open>False\<close> and changes nothing else: every object, and
  so every bone rotation, is as before the call.
\<close>

theorem rig_unresolved_fails:
  assumes "objects s armature_name = None \<or>
           (\<exists>obj. objects s armature_name = Some obj \<and> obj_type obj \<noteq> ''ARMATURE'')"
  shows "apply_vrm_pose_to_armature armature_name pose_data s =
           (s\<lparr>console := console s @
                [if objects s armature_name = None then ErrArmatureNotFound armature_name
                 else ErrNotArmature armature_name]\<rparr>, Inr False) \<and>
         objects (fst (apply_vrm_pose_to_armature armature_name pose_data s)) = objects s"
  using assms by (auto simp: apply_vrm_pose_to_armature_def py_print_def)

theorem rig_unresolved_fails_witness:
  "objects empty_scene ''Armature'' = None \<and>
   objects sample_scene ''Body'' = Some sample_mesh \<and> obj_type sample_mesh \<noteq> ''ARMATURE'' \<and>
   apply_vrm_pose_to_armature ''Armature'' sample_pose empty_scene =
     (empty_scene\<lparr>console := [ErrArmatureNotFound ''Armature'']\<rparr>, Inr False) \<and>
   apply_vrm_pose_to_armature ''Body'' sample_pose sample_scene =
     (sample_scene\<lparr>console := [ErrNotArmature ''Body'']\<rparr>, Inr False)"
proof -
  have a: "objects empty_scene ''Armature'' = None"
    by (simp add: empty_scene_def)
  have b: "objects sample_scene ''Body'' = Some sample_mesh"
    by (simp add: sample_scene_def)
  have c: "obj_type sample_mesh \<noteq> ''ARMATURE''"
    by (simp add: sample_mesh_def)
  have "apply_vrm_pose_to_armature ''Armature'' sample_pose empty_scene =
     (empty_scene\<lparr>console := [ErrArmatureNotFound ''Armature'']\<rparr>, Inr False)"
    using rig_unresolved_fails [of empty_scene "''Armature''" sample_pose] a
    by (simp add: empty_scene_def)
  moreover have "apply_vrm_pose_to_armature ''Body'' sample_pose sample_scene =
     (sample_scene\<lparr>console := [ErrNotArmature ''Body'']\<rparr>, Inr False)"
    using rig_unresolved_fails [of sample_scene "''Body''" sample_pose] b c
    by (simp add: sample_scene_def)
  ultimately show ?thesis using a b c by simp
qed



text \<open>
  C3, as stated: an entry with a mapped name and an existing bone whose rotation is not
  an array of four numbers is passed over silently. A rotation that is a non-zero number
  is not an array of four numbers, yet the loop stops there with a \<^verbatim>\<open>TypeError\<close> (a number
  has no length) and the entry after it, which alone would be applied, is never reached.
\<close>

theorem malformed_rotation_counterexample:
  "bone_map_get ''hips'' = Some ''Hips'' \<and>
   bones_get sample_scene ''Armature'' ''Hips'' \<noteq> None \<and>
   snd (apply_bones ''Armature''
          [(''hips'', JObj [(''rotation'', JInt 5)]), (''spine'', hips_turned)] 0 0 sample_scene) =
     Inl TypeError \<and>
   snd (apply_bones ''Armature'' [(''spine'', hips_turned)] 0 0 sample_scene) = Inr (1, 0)"
  by (simp add: run_defs hips_turned_def sample_scene_def sample_rig_def numeral_3_eq_3
      int_to_double_0)

text \<open>
  C3, amended: for an entry that is an object, with a mapped name and an existing bone,
  whose rotation is absent, or falsy (\<^verbatim>\<open>null\<close>, \<^verbatim>\<open>false\<close>, zero, or an empty string, array or
  object), or a string, array or object whose length is not 4, the pass changes neither
  the scene nor the two tallies, and the loop goes on with the remaining entries.
\<close>

theorem malformed_rotation_ignored:
  assumes "bone_map_get k = Some b" and "bones_get s name b = Some pb"
    and "py_get bd ''rotation'' JNull = Inr rotation"
    and "\<not> truthy rotation \<or> (\<exists>n. py_len rotation = Inr n \<and> n \<noteq> 4)"
  shows "apply_bones name ((k, bd) # rest) applied_count skipped_count s =
           apply_bones name rest applied_count skipped_count s"
  using assms bone_map_get_nonempty [OF assms(1)]
  by (auto simp: apply_bone_def)

theorem malformed_rotation_ignored_witness:
  "apply_bones ''Armature'' [(''hips'', JObj [(''rotation'', JArr [JInt 0, JInt 0, JInt 1])])] 0 0
     sample_scene = (sample_scene, Inr (0, 0)) \<and>
   apply_bones ''Armature'' [(''hips'', JObj [])] 0 0 sample_scene = (sample_scene, Inr (0, 0))"
proof -
  have m: "bone_map_get ''hips'' = Some ''Hips''"
    by (simp add: bone_map_get_def VRM_TO_BLENDER_BONES_def)
  have p: "bones_get sample_scene ''Armature'' ''Hips'' = Some \<lparr>rotation_quaternion = Quat zero one zero zero\<rparr>"
    by (simp add: bones_get_def sample_scene_def sample_rig_def)
  have "apply_bones ''Armature'' [(''hips'', JObj [(''rotation'', JArr [JInt 0, JInt 0, JInt 1])])] 0 0
     sample_scene = (sample_scene, Inr (0, 0))"
    using malformed_rotation_ignored [OF m p, of "JObj [(''rotation'', JArr [JInt 0, JInt 0, JInt 1])]"
        "JArr [JInt 0, JInt 0, JInt 1]" "[]" 0 0]
    by simp
  moreover have "apply_bones ''Armature'' [(''hips'', JObj [])] 0 0 sample_scene = (sample_scene, Inr (0, 0))"
    using malformed_rotation_ignored [OF m p, of "JObj []" JNull "[]" 0 0]
    by simp
  ultimately show ?thesis by simp
qed


section \<open>The claims about missing sections and a missing rig\<close>

lemma no_pose_section:
  assumes "objects s armature_name = Some obj" and "obj_type obj = ''ARMATURE''"
    and "py_get pose_data ''vrmPose'' (JObj []) = Inr vrm_pose" and "\<not> truthy vrm_pose"
  shows "apply_vrm_pose_to_armature armature_name pose_data s =
           (s\<lparr>active := Some armature_name, mode := ''POSE'',
              console := console s @ [ErrNoVrmPose]\<rparr>, Inr False)"
  using assms by (simp add: apply_vrm_pose_to_armature_def py_print_def)

text \<open>
  C9: when the named object is a skeletal rig and the document has no \<^verbatim>\<open>vrmPose\<close> key, the
  pose applier returns \<^verbatim>\<open>False\<close> after it has made the rig the active object and switched
  to pose mode. Apart from the error message these are the only changes: the objects,
  and so every bone rotation, and the count of view updates are as before.
\<close>

theorem missing_pose_after_mode_switch:
  assumes "objects s armature_name = Some obj" and "obj_type obj = ''ARMATURE''"
    and "map_of doc ''vrmPose'' = None"
  shows "apply_vrm_pose_to_armature armature_name (JObj doc) s =
           (s\<lparr>active := Some armature_name, mode := ''POSE'',
              console := console s @ [ErrNoVrmPose]\<rparr>, Inr False)"
  using no_pose_section [OF assms(1,2), of "JObj doc" "JObj []"] assms(3) by simp

theorem missing_pose_after_mode_switch_witness:
  "apply_vrm_pose_to_armature ''Armature'' (JObj [(''sceneRotation'', JObj [(''x'', JInt 90)])])
     sample_scene =
     (sample_scene\<lparr>active := Some ''Armature'', mode := ''POSE'', console := [ErrNoVrmPose]\<rparr>,
      Inr False)"
proof -
  have a: "objects sample_scene ''Armature'' = Some sample_rig"
    by (simp add: sample_scene_def)
  have b: "obj_type sample_rig = ''ARMATURE''"
    by (simp add: sample_rig_def)
  show ?thesis
    using missing_pose_after_mode_switch [OF a b, of "[(''sceneRotation'', JObj [(''x'', JInt 90)])]"]
    by (simp add: sample_scene_def)
qed

text \<open>
  C7: on a document without a \<^verbatim>\<open>vrmPose\<close> key the pose applier returns \<^verbatim>\<open>False\<close> and leaves
  every object, and so every bone, as it was; on a document without a \<^verbatim>\<open>sceneRotation\<close>
  key the scene rotation applier returns normally and changes nothing, not even the
  console.
\<close>

theorem missing_sections:
  "(map_of doc ''vrmPose'' = None \<longrightarrow>
      snd (apply_vrm_pose_to_armature armature_name (JObj doc) s) = Inr False \<and>
      objects (fst (apply_vrm_pose_to_armature armature_name (JObj doc) s)) = objects s) \<and>
   (map_of doc ''sceneRotation'' = None \<longrightarrow> apply_scene_rotation (JObj doc) s = (s, Inr ()))"
proof -
  have "snd (apply_vrm_pose_to_armature armature_name (JObj doc) s) = Inr False \<and>
        objects (fst (apply_vrm_pose_to_armature armature_name (JObj doc) s)) = objects s"
    if "map_of doc ''vrmPose'' = None"
    using that by (simp add: apply_vrm_pose_to_armature_def py_print_def split: option.splits)
  moreover have "apply_scene_rotation (JObj doc) s = (s, Inr ())"
    if "map_of doc ''sceneRotation'' = None"
    using that by (simp add: apply_scene_rotation_def)
  ultimately show ?thesis by blast
qed

theorem missing_sections_witness:
  "snd (apply_vrm_pose_to_armature ''Armature'' (JObj [(''sceneRotation'', JObj [(''x'', JInt 90)])])
          sample_scene) = Inr False \<and>
   objects (fst (apply_vrm_pose_to_armature ''Armature''
                   (JObj [(''sceneRotation'', JObj [(''x'', JInt 90)])]) sample_scene)) =
     objects sample_scene \<and>
   apply_scene_rotation sample_pose sample_scene = (sample_scene, Inr ()) \<and>
   snd (apply_vrm_pose_to_armature ''Armature'' sample_pose sample_scene) = Inr True"
proof -
  have ok: "snd (apply_vrm_pose_to_armature ''Armature'' sample_pose sample_scene) = Inr True"
    by (simp add: run_defs sample_pose_def hips_turned_def sample_scene_def sample_rig_def
        numeral_3_eq_3 int_to_double_0)
  show ?thesis
    using missing_sections [of "[(''sceneRotation'', JObj [(''x'', JInt 90)])]" "''Armature''" sample_scene]
      missing_sections [of "[(''vrmPose'', JObj [(''hips'', hips_turned)])]" "''Armature''" sample_scene]
      ok
    by (simp add: sample_pose_def)
qed

text \<open>
  C10: when the document has a non-empty \<^verbatim>\<open>sceneRotation\<close> and no object of the scene has
  the configured rig name, the scene rotation applier returns normally with the state
  unchanged, console included, and \<open>main\<close> goes on to the pose applier, whose error about
  the missing rig is the next thing printed.
\<close>

theorem scene_rotation_without_rig:
  assumes "py_get pose_data ''sceneRotation'' (JObj []) = Inr scene_rotation"
    and "truthy scene_rotation" and "objects s ARMATURE_NAME = None"
  shows "apply_scene_rotation pose_data s = (s, Inr ()) \<and>
         main (Inr pose_data) s =
           (s\<lparr>console := console s @
                [MsgRule, MsgTitle, MsgRule, MsgLoading JSON_PATH, MsgLoaded,
                 MsgApplyingSceneRotation, MsgApplyingPose ARMATURE_NAME,
                 ErrArmatureNotFound ARMATURE_NAME, MsgFailed, MsgTroubleshooting, MsgRule]\<rparr>,
            Inr ())"
proof -
  have quiet: "apply_scene_rotation pose_data s' = (s', Inr ())" if "objects s' = objects s" for s'
    using assms that by (simp add: apply_scene_rotation_def)
  have fails: "apply_vrm_pose_to_armature ARMATURE_NAME pose_data s' =
      (py_print (ErrArmatureNotFound ARMATURE_NAME) s', Inr False)" if "objects s' = objects s" for s'
    using assms(3) that by (simp add: apply_vrm_pose_to_armature_def)
  show ?thesis
    by (simp add: quiet main_def Let_def fails objects_py_print) (simp add: py_print_def)
qed

theorem scene_rotation_without_rig_witness:
  "objects empty_scene ARMATURE_NAME = None \<and>
   apply_scene_rotation (JObj [(''sceneRotation'', JObj [(''x'', JInt 90)])]) empty_scene =
     (empty_scene, Inr ()) \<and>
   console (fst (main (Inr (JObj [(''sceneRotation'', JObj [(''x'', JInt 90)])])) empty_scene)) =
     [MsgRule, MsgTitle, MsgRule, MsgLoading JSON_PATH, MsgLoaded,
      MsgApplyingSceneRotation, MsgApplyingPose ARMATURE_NAME,
      ErrArmatureNotFound ARMATURE_NAME, MsgFailed, MsgTroubleshooting, MsgRule]"
proof -
  have a: "objects empty_scene ARMATURE_NAME = None"
    by (simp add: empty_scene_def)
  show ?thesis
    using scene_rotation_without_rig [of "JObj [(''sceneRotation'', JObj [(''x'', JInt 90)])]"
        "JObj [(''x'', JInt 90)]" empty_scene] a
    by (simp add: empty_scene_def)
qed

section \<open>The claim about the scene rotation\<close>







end
